theory Spec2Isabelle
  imports Complex_Main
begin

section \<open>The finger task of envpool/mujoco/dmc/finger.h\<close>

text \<open>
  A shallow embedding of class \<open>FingerEnv\<close>. The type \<open>mjtNum\<close> (a C double) and the
  \<open>float\<close> members are modelled as \<open>real\<close>: comparisons, sums and products are those of
  the reals, rounding is not modelled. The flat C arrays of the physics engine
  (\<open>mjModel\<close>, \<open>mjData\<close>) are lists read with \<open>!\<close> and written with \<open>xs[i := v]\<close>; the
  engine allocates them from the loaded asset, and an index outside an array is
  undefined behaviour in C++, so what is said of a written cell is said on arrays that
  hold the cell. The blocks under \<open>#ifdef ENVPOOL_TEST\<close> are compiled out and not modelled.
\<close>

subsection \<open>Data\<close>

text \<open>The fields of \<open>mjModel\<close> and \<open>mjData\<close> that finger.h touches.\<close>

record mjModel =
  site_rgba :: "real list"
  site_pos :: "real list"
  site_size :: "real list"
  geom_size :: "real list"
  dof_damping :: "real list"

record mjData =
  qpos :: "real list"
  xanchor :: "real list"
  sensordata :: "real list"
  ncon :: int

text \<open>
  The members of \<open>FingerEnv\<close> (the trailing underscore of the C++ names is dropped)
  together with those it inherits from \<open>MujocoEnv\<close>: \<open>model_\<close>, \<open>data_\<close>, \<open>gen_\<close>,
  \<open>reward_\<close>, \<open>discount_\<close>. The random generator \<open>gen_\<close> has an abstract state \<open>'g\<close>.
\<close>

record 'g FingerEnv =
  target_radius :: real
  is_spin :: bool
  model :: mjModel
  data :: mjData
  gen :: 'g
  reward :: real
  discount :: real

text \<open>
  The operations of the base class \<open>MujocoEnv\<close> (envpool/mujoco/dmc/mujoco_env.h) and of
  the C++ random library that finger.h calls and that are not part of this file. They
  are parameters of the model. The engine calls receive the model read-only and return
  the new \<open>mjData\<close>; \<open>generate_canonical\<close> is the draw in \<open>[0, 1)\<close> that
  \<open>std::uniform_real_distribution\<close> scales.
\<close>

record 'g MujocoEnv =
  generate_canonical :: "'g \<Rightarrow> real \<times> 'g"
  RandomizeLimitedAndRotationalJoints :: "mjModel \<Rightarrow> mjData \<Rightarrow> 'g \<Rightarrow> mjData \<times> 'g"
  PhysicsAfterReset :: "mjModel \<Rightarrow> mjData \<Rightarrow> mjData"
  PhysicsReset :: "mjModel \<Rightarrow> mjData \<Rightarrow> mjData"
  PhysicsStep :: "mjModel \<Rightarrow> mjData \<Rightarrow> real list \<Rightarrow> mjData"

text \<open>Both \<open>throw std::runtime_error(msg)\<close> of the file, as a value.\<close>

datatype error = runtime_error string

subsection \<open>Constants and construction\<close>

definition kEasyTargetSize :: real where
  "kEasyTargetSize = 0.07"

definition kHardTargetSize :: real where
  "kHardTargetSize = 0.03"

definition kSpinVelocity :: real where
  "kSpinVelocity = 15"

text \<open>
  The constructor. The base classes are constructed first (from the asset; their result
  is the argument \<open>base\<close>, whose own two fields \<open>target_radius\<close> and \<open>is_spin\<close> are
  overwritten here). \<open>target_radius_\<close> has no initialiser: \<open>indeterminate\<close> is the value
  the uninitialised member happens to hold.
\<close>

definition FingerEnv_ctor :: "string \<Rightarrow> real \<Rightarrow> 'g FingerEnv \<Rightarrow> error + 'g FingerEnv" where
  "FingerEnv_ctor task_name indeterminate base =
     (let s = base\<lparr>target_radius := indeterminate, is_spin := (task_name = ''spin'')\<rparr>
      in if task_name = ''turn_easy'' then Inr (s\<lparr>target_radius := kEasyTargetSize\<rparr>)
         else if task_name = ''turn_hard'' then Inr (s\<lparr>target_radius := kHardTargetSize\<rparr>)
         else if task_name \<noteq> ''spin''
           then Inl (runtime_error ''Unknown task_name for dmc finger.'')
         else Inr s)"

text \<open>
  \<open>StateSpec\<close>: the keys and shapes of the state record. The argument \<open>conf\<close> (here the
  task name) is not used by the source.
\<close>

definition StateSpec :: "string \<Rightarrow> (string \<times> int list) list" where
  "StateSpec conf =
     [(''obs:position'', [4]),
      (''obs:velocity'', [3]),
      (''obs:touch'', [2]),
      (''obs:target_position'', [2]),
      (''obs:dist_to_target'', []),
      (''discount'', [-1])]"

subsection \<open>Sensor views\<close>

definition HingeVelocity :: "'g FingerEnv \<Rightarrow> real" where
  "HingeVelocity s = sensordata (data s) ! 4"

definition TipPosition :: "'g FingerEnv \<Rightarrow> real list" where
  "TipPosition s =
     [sensordata (data s) ! 5 - sensordata (data s) ! 11,
      sensordata (data s) ! 7 - sensordata (data s) ! 13]"

definition BoundedPosition :: "'g FingerEnv \<Rightarrow> real list" where
  "BoundedPosition s =
     (let tip_position = TipPosition s
      in [sensordata (data s) ! 0, sensordata (data s) ! 1,
          tip_position ! 0, tip_position ! 1])"

definition TargetPosition :: "'g FingerEnv \<Rightarrow> real list" where
  "TargetPosition s =
     [sensordata (data s) ! 8 - sensordata (data s) ! 11,
      sensordata (data s) ! 10 - sensordata (data s) ! 13]"

text \<open>
  \<open>std::log1p\<close> on the reals. For \<open>x \<le> -1\<close> the C function returns minus infinity or a
  NaN, which have no counterpart here: statements about \<open>log1p\<close> are made for \<open>-1 < x\<close>.
\<close>

definition log1p :: "real \<Rightarrow> real" where
  "log1p x = ln (1 + x)"

definition Touch :: "'g FingerEnv \<Rightarrow> real list" where
  "Touch s = [log1p (sensordata (data s) ! 14), log1p (sensordata (data s) ! 15)]"

definition Velocity :: "'g FingerEnv \<Rightarrow> real list" where
  "Velocity s = [sensordata (data s) ! 2, sensordata (data s) ! 3, sensordata (data s) ! 4]"

definition ToTarget :: "'g FingerEnv \<Rightarrow> real list" where
  "ToTarget s =
     (let target_position = TargetPosition s; tip_position = TipPosition s
      in [target_position ! 0 - tip_position ! 0, target_position ! 1 - tip_position ! 1])"

definition DistToTarget :: "'g FingerEnv \<Rightarrow> real" where
  "DistToTarget s =
     (let to_target = ToTarget s
      in sqrt (to_target ! 0 * to_target ! 0 + to_target ! 1 * to_target ! 1)
         - site_size (model s) ! 0)"

subsection \<open>Reward\<close>

text \<open>\<open>static_cast<float>\<close> of a \<open>bool\<close> is \<open>1.0f\<close> or \<open>0.0f\<close>.\<close>

definition float_of_bool :: "bool \<Rightarrow> real" where
  "float_of_bool b = (if b then 1 else 0)"

definition TaskGetReward :: "'g FingerEnv \<Rightarrow> real" where
  "TaskGetReward s =
     (if is_spin s then float_of_bool (HingeVelocity s \<le> - kSpinVelocity)
      else float_of_bool (DistToTarget s \<le> 0))"

definition TaskShouldTerminateEpisode :: "'g FingerEnv \<Rightarrow> bool" where
  "TaskShouldTerminateEpisode s = False"

subsection \<open>Episode initialisation\<close>

text \<open>
  \<open>dist_uniform_(gen_)\<close> with \<open>dist_uniform_(-M_PI, M_PI)\<close>: the canonical draw \<open>u\<close>
  scaled to \<open>(b - a) * u + a\<close>.
\<close>

definition dist_uniform :: "'g MujocoEnv \<Rightarrow> 'g \<Rightarrow> real \<times> 'g" where
  "dist_uniform E g =
     (let (u, g') = generate_canonical E g in ((pi - (- pi)) * u + (- pi), g'))"

text \<open>
  The \<open>for\<close> loop of \<open>SetRandomJointAngles\<close>, from its counter \<open>i\<close> on. The counter is
  declared in the loop header and dies with the loop: only the environment comes back.
  The C \<open>int\<close>s are modelled as \<open>int\<close> (the counter stays within \<open>max_attempts\<close>).
\<close>

function SetRandomJointAngles_loop ::
  "'g MujocoEnv \<Rightarrow> int \<Rightarrow> int \<Rightarrow> 'g FingerEnv \<Rightarrow> 'g FingerEnv" where
  "SetRandomJointAngles_loop E max_attempts i s =
     (if i < max_attempts then
        (let dg = RandomizeLimitedAndRotationalJoints E (model s) (data s) (gen s);
             s1 = s\<lparr>data := fst dg, gen := snd dg\<rparr>;
             s2 = s1\<lparr>data := PhysicsAfterReset E (model s1) (data s1)\<rparr>
         in if ncon (data s2) = 0 then s2
            else SetRandomJointAngles_loop E max_attempts (i + 1) s2)
      else s)"
  by pat_completeness auto
termination
  by (relation "measure (\<lambda>(E, max_attempts, i, s). nat (max_attempts - i))") auto

declare SetRandomJointAngles_loop.simps [simp del]

text \<open>
  \<open>SetRandomJointAngles\<close>. The source declares \<open>int i = 0\<close> before the loop and a second
  \<open>int i\<close> in the loop header, which shadows the first; the test after the loop reads
  the first one.
\<close>

definition SetRandomJointAngles ::
  "'g MujocoEnv \<Rightarrow> int \<Rightarrow> 'g FingerEnv \<Rightarrow> error + 'g FingerEnv" where
  "SetRandomJointAngles E max_attempts s =
     (let i = (0::int);
          s' = SetRandomJointAngles_loop E max_attempts 0 s
      in if i = max_attempts
         then Inl (runtime_error
                ''Could not find a collision-free state after max_attempts attempts'')
         else Inr s')"

definition TaskInitializeEpisode :: "'g MujocoEnv \<Rightarrow> 'g FingerEnv \<Rightarrow> error + 'g FingerEnv" where
  "TaskInitializeEpisode E s =
     (if is_spin s then
        (let m1 = (model s)\<lparr>site_rgba := (site_rgba (model s))[3 * 0 + 3 := 0]\<rparr>;
             m2 = m1\<lparr>site_rgba := (site_rgba m1)[3 * 3 + 3 := 0]\<rparr>;
             m3 = m2\<lparr>dof_damping := (dof_damping m2)[2 := 0.03]\<rparr>
         in SetRandomJointAngles E 1000 (s\<lparr>model := m3\<rparr>))
      else
        (let ag = dist_uniform E (gen s);
             target_angle = fst ag;
             hinge_x = xanchor (data s) ! (2 * 3 + 0);
             hinge_z = xanchor (data s) ! (2 * 3 + 2);
             radius = geom_size (model s) ! (5 * 3 + 0) + geom_size (model s) ! (5 * 1)
                      + geom_size (model s) ! (5 * 2);
             target_x = hinge_x + radius * sin target_angle;
             target_z = hinge_z + radius * cos target_angle;
             m1 = (model s)\<lparr>site_pos := (site_pos (model s))[0 := target_x]\<rparr>;
             m2 = m1\<lparr>site_pos := (site_pos m1)[2 := target_z]\<rparr>;
             m3 = m2\<lparr>site_size := (site_size m2)[0 := target_radius s]\<rparr>
         in SetRandomJointAngles E 1000 (s\<lparr>gen := snd ag, model := m3\<rparr>)))"

subsection \<open>Writing the state record\<close>

text \<open>
  The state record is a dictionary from the keys of the state specification to arrays
  (a scalar is an array of one cell). \<open>Allocate()\<close> belongs to the execution harness: the
  record it hands out is the argument \<open>allocated\<close>.
\<close>

type_synonym State = "string \<rightharpoonup> real list"

definition WriteState :: "'g FingerEnv \<Rightarrow> State \<Rightarrow> State" where
  "WriteState s allocated =
     (let state = allocated;
          state = state(''reward'' \<mapsto> [reward s]);
          state = state(''discount'' \<mapsto> [discount s]);
          bound_pos = BoundedPosition s;
          velocity = Velocity s;
          touch = Touch s;
          state = state(''obs:position'' \<mapsto> bound_pos);
          state = state(''obs:velocity'' \<mapsto> velocity);
          state = state(''obs:touch'' \<mapsto> touch)
      in if \<not> is_spin s then
           (let target_position = TargetPosition s;
                state = state(''obs:target_position'' \<mapsto> target_position)
            in state(''obs:dist_to_target'' \<mapsto> [DistToTarget s]))
         else state)"

subsection \<open>Reset and Step\<close>

text \<open>
  Modelled from the spec: \<open>ControlReset\<close> of the base class \<open>MujocoEnv\<close>
  (envpool/mujoco/dmc/mujoco_env.h, not part of the sources at hand). The spec gives
  the control flow "Reset \<rightarrow> EpisodeInitializer (loop) \<rightarrow> ObservationBuilder \<rightarrow> emit
  state": the engine resets its own data, then the task initialises the episode.
\<close>

definition ControlReset :: "'g MujocoEnv \<Rightarrow> 'g FingerEnv \<Rightarrow> error + 'g FingerEnv" where
  "ControlReset E s =
     TaskInitializeEpisode E (s\<lparr>data := PhysicsReset E (model s) (data s)\<rparr>)"

text \<open>
  Modelled from the spec: \<open>ControlStep\<close> of the base class \<open>MujocoEnv\<close> (same header).
  The spec gives "Step(action) \<rightarrow> apply action to engine \<rightarrow> advance physics (external)
  \<rightarrow> ObservationBuilder \<rightarrow> RewardEvaluator \<rightarrow> emit state", the reward being "evaluated
  after every physics step" and the discount "passed through unchanged".
\<close>

definition ControlStep :: "'g MujocoEnv \<Rightarrow> real list \<Rightarrow> 'g FingerEnv \<Rightarrow> 'g FingerEnv" where
  "ControlStep E act s =
     (let s1 = s\<lparr>data := PhysicsStep E (model s) (data s) act\<rparr>
      in s1\<lparr>reward := TaskGetReward s1\<rparr>)"

text \<open>\<open>Reset\<close> and \<open>Step\<close> return the environment and the record they emit.\<close>

definition Reset :: "'g MujocoEnv \<Rightarrow> 'g FingerEnv \<Rightarrow> State \<Rightarrow> error + ('g FingerEnv \<times> State)" where
  "Reset E s allocated =
     (case ControlReset E s of
        Inl e \<Rightarrow> Inl e
      | Inr s' \<Rightarrow> Inr (s', WriteState s' allocated))"

definition Step :: "'g MujocoEnv \<Rightarrow> real list \<Rightarrow> 'g FingerEnv \<Rightarrow> State \<Rightarrow> 'g FingerEnv \<times> State" where
  "Step E act s allocated =
     (let s' = ControlStep E act s in (s', WriteState s' allocated))"

subsection \<open>Notions of the specification\<close>

text \<open>
  The Euclidean norm and the difference of two vectors, as the specification uses them
  ("Euclidean norm of (target_position - tip_position)"), to compare with the
  arithmetic of \<open>DistToTarget\<close>.
\<close>

definition euclidean_norm :: "real list \<Rightarrow> real" where
  "euclidean_norm v = sqrt (\<Sum>x\<leftarrow>v. x\<^sup>2)"

definition vec_sub :: "real list \<Rightarrow> real list \<Rightarrow> real list" where
  "vec_sub u v = map2 (-) u v"

subsection \<open>Concrete engines and environments\<close>

text \<open>
  Two engines whose generator state counts the draws made. In \<open>colliding_engine\<close> every
  configuration has one contact; in \<open>free_engine\<close> none has.
\<close>

definition colliding_engine :: "nat MujocoEnv" where
  "colliding_engine =
     \<lparr>generate_canonical = (\<lambda>g. (1 / 2, Suc g)),
      RandomizeLimitedAndRotationalJoints = (\<lambda>m d g. (d, Suc g)),
      PhysicsAfterReset = (\<lambda>m d. d\<lparr>ncon := 1\<rparr>),
      PhysicsReset = (\<lambda>m d. d),
      PhysicsStep = (\<lambda>m d act. d)\<rparr>"

definition free_engine :: "nat MujocoEnv" where
  "free_engine =
     \<lparr>generate_canonical = (\<lambda>g. (1 / 2, Suc g)),
      RandomizeLimitedAndRotationalJoints = (\<lambda>m d g. (d, Suc g)),
      PhysicsAfterReset = (\<lambda>m d. d\<lparr>ncon := 0\<rparr>),
      PhysicsReset = (\<lambda>m d. d),
      PhysicsStep = (\<lambda>m d act. d)\<rparr>"

text \<open>
  A model with four sites (four \<open>rgba\<close> cells each, three position and size cells each),
  eight geoms, three degrees of freedom and sixteen sensor cells.
\<close>

definition finger_model :: mjModel where
  "finger_model =
     \<lparr>site_rgba = [1, 1, 1, 1,  1, 1, 1, 1,  1, 1, 1, 1,  1, 1, 1, 1],
      site_pos = replicate 12 0,
      site_size = 5 # replicate 11 (1 / 50),
      geom_size = replicate 24 (1 / 10),
      dof_damping = [1 / 2, 1 / 2, 1 / 2]\<rparr>"

definition finger_data :: mjData where
  "finger_data =
     \<lparr>qpos = [0, 0, 0],
      xanchor = [0, 0, 0,  0, 0, 0,  1 / 5, 0, 2 / 5],
      sensordata = [0, 0, 0, 0, - 15,  0, 0, 0,  3, 0, 4,  0, 0, 0,  0, 0],
      ncon = 0\<rparr>"

definition spin_env :: "nat FingerEnv" where
  "spin_env =
     \<lparr>target_radius = 0, is_spin = True, model = finger_model, data = finger_data,
      gen = 0, reward = 0, discount = 1\<rparr>"

definition turn_env :: "nat FingerEnv" where
  "turn_env =
     \<lparr>target_radius = kEasyTargetSize, is_spin = False, model = finger_model,
      data = finger_data, gen = 0, reward = 0, discount = 1\<rparr>"

definition pressed_env :: "nat FingerEnv" where
  "pressed_env =
     spin_env\<lparr>data := finger_data\<lparr>sensordata :=
        [0, 0, 0, 0, - 15,  0, 0, 0,  3, 0, 4,  0, 0, 0,  1, 2]\<rparr>\<rparr>"

text \<open>
  The size of one geom, for comparison with the radius that \<open>TaskInitializeEpisode\<close>
  computes: \<open>geom_size\<close> holds three cells per geom (the layout of the source's first
  summand \<open>geom_size[5 * 3 + 0]\<close> and of its reads \<open>xanchor[2 * 3 + 0]\<close>,
  \<open>xanchor[2 * 3 + 2]\<close>), so the cells of geom \<open>g\<close> are \<open>g * 3 + 0\<close>, \<open>g * 3 + 1\<close> and
  \<open>g * 3 + 2\<close>.
\<close>

definition geom_cells :: "mjModel \<Rightarrow> nat \<Rightarrow> real list" where
  "geom_cells m g =
     [geom_size m ! (g * 3 + 0), geom_size m ! (g * 3 + 1), geom_size m ! (g * 3 + 2)]"

text \<open>
  A turn environment on a model of eight geoms in which every cell of \<open>geom_size\<close> holds
  its own index, so that a sum of cells tells which cells were read.
\<close>

definition indexed_turn_env :: "nat FingerEnv" where
  "indexed_turn_env =
     turn_env\<lparr>model := finger_model\<lparr>geom_size :=
        [0, 1, 2,  3, 4, 5,  6, 7, 8,  9, 10, 11,  12, 13, 14,  15, 16, 17,
         18, 19, 20,  21, 22, 23]\<rparr>\<rparr>"

text \<open>A record as the harness may hand it out, with old content in the two target slots.\<close>

definition stale_state :: State where
  "stale_state = [''obs:target_position'' \<mapsto> [9, 9], ''obs:dist_to_target'' \<mapsto> [9]]"

section \<open>Properties\<close>

subsection \<open>The sampling loop\<close>

text \<open>
  The loop writes \<open>data_\<close> and \<open>gen_\<close> only; every other member comes back as it went in.
\<close>

lemma SetRandomJointAngles_loop_model [simp]: "model (SetRandomJointAngles_loop E m i s) = model s"
  by (induction E m i s rule: SetRandomJointAngles_loop.induct)
     (subst SetRandomJointAngles_loop.simps, simp add: Let_def)

lemma SetRandomJointAngles_loop_is_spin [simp]: "is_spin (SetRandomJointAngles_loop E m i s) = is_spin s"
  by (induction E m i s rule: SetRandomJointAngles_loop.induct)
     (subst SetRandomJointAngles_loop.simps, simp add: Let_def)

lemma SetRandomJointAngles_loop_target_radius [simp]:
  "target_radius (SetRandomJointAngles_loop E m i s) = target_radius s"
  by (induction E m i s rule: SetRandomJointAngles_loop.induct)
     (subst SetRandomJointAngles_loop.simps, simp add: Let_def)

lemma SetRandomJointAngles_loop_reward [simp]:
  "reward (SetRandomJointAngles_loop E m i s) = reward s"
  by (induction E m i s rule: SetRandomJointAngles_loop.induct)
     (subst SetRandomJointAngles_loop.simps, simp add: Let_def)

lemma SetRandomJointAngles_loop_target_radius_update:
  "SetRandomJointAngles_loop E m i (s\<lparr>target_radius := r\<rparr>)
     = (SetRandomJointAngles_loop E m i s)\<lparr>target_radius := r\<rparr>"
proof (induction E m i s rule: SetRandomJointAngles_loop.induct)
  case (1 E m i s)
  define dg where "dg = RandomizeLimitedAndRotationalJoints E (model s) (data s) (gen s)"
  define s2 where "s2 = s\<lparr>gen := snd dg, data := PhysicsAfterReset E (model s) (fst dg)\<rparr>"
  have unf: "SetRandomJointAngles_loop E m i s
      = (if i < m then if ncon (data s2) = 0 then s2
                       else SetRandomJointAngles_loop E m (i + 1) s2 else s)"
    by (subst SetRandomJointAngles_loop.simps) (simp add: Let_def s2_def dg_def)
  have comm: "(s\<lparr>target_radius := r\<rparr>)\<lparr>gen := snd dg, data := PhysicsAfterReset E (model s) (fst dg)\<rparr>
      = s2\<lparr>target_radius := r\<rparr>"
    by (cases s) (simp add: s2_def)
  have unf': "SetRandomJointAngles_loop E m i (s\<lparr>target_radius := r\<rparr>)
      = (if i < m then if ncon (data s2) = 0 then s2\<lparr>target_radius := r\<rparr>
                       else SetRandomJointAngles_loop E m (i + 1) (s2\<lparr>target_radius := r\<rparr>)
         else s\<lparr>target_radius := r\<rparr>)"
    by (subst SetRandomJointAngles_loop.simps)
       (simp add: Let_def dg_def [symmetric] comm, simp add: s2_def)
  have ih: "i < m \<Longrightarrow> ncon (data s2) \<noteq> 0 \<Longrightarrow>
      SetRandomJointAngles_loop E m (i + 1) (s2\<lparr>target_radius := r\<rparr>)
        = (SetRandomJointAngles_loop E m (i + 1) s2)\<lparr>target_radius := r\<rparr>"
    using "1.IH" [of dg "s\<lparr>data := fst dg, gen := snd dg\<rparr>" s2]
    by (simp add: s2_def dg_def)
  show ?case
    unfolding unf unf' using ih by simp
qed

text \<open>
  Against \<open>colliding_engine\<close> the loop runs to its bound: the generator has advanced once
  per attempt and the last configuration is still in contact.
\<close>

lemma SetRandomJointAngles_loop_colliding:
  "i < m \<Longrightarrow> SetRandomJointAngles_loop colliding_engine m i s
      = s\<lparr>data := (data s)\<lparr>ncon := 1\<rparr>, gen := gen s + nat (m - i)\<rparr>"
proof (induction "nat (m - i)" arbitrary: i s)
  case 0
  then show ?case by simp
next
  case (Suc k)
  define s2 where "s2 = s\<lparr>gen := Suc (gen s), data := (data s)\<lparr>ncon := 1\<rparr>\<rparr>"
  have unf: "SetRandomJointAngles_loop colliding_engine m i s
      = SetRandomJointAngles_loop colliding_engine m (i + 1) s2"
    using Suc.prems
    by (subst SetRandomJointAngles_loop.simps) (simp add: Let_def s2_def colliding_engine_def)
  show ?case
  proof (cases "i + 1 < m")
    case True
    moreover from Suc.hyps(2) have "k = nat (m - (i + 1))" by simp
    ultimately have "SetRandomJointAngles_loop colliding_engine m (i + 1) s2
        = s2\<lparr>data := (data s2)\<lparr>ncon := 1\<rparr>, gen := gen s2 + nat (m - (i + 1))\<rparr>"
      using Suc.hyps(1) by blast
    also have "\<dots> = s\<lparr>data := (data s)\<lparr>ncon := 1\<rparr>, gen := gen s + nat (m - i)\<rparr>"
      using True by (simp add: s2_def nat_diff_distrib)
    finally show ?thesis using unf by simp
  next
    case False
    with Suc.prems have m: "m = i + 1" by simp
    have "SetRandomJointAngles_loop colliding_engine m (i + 1) s2 = s2"
      using m by (subst SetRandomJointAngles_loop.simps) simp
    then show ?thesis using unf m by (simp add: s2_def)
  qed
qed

lemma SetRandomJointAngles_1000:
  "SetRandomJointAngles E 1000 s = Inr (SetRandomJointAngles_loop E 1000 0 s)"
  by (simp add: SetRandomJointAngles_def)

text \<open>Claim C1 (the code departs from it). After 1000 attempts that all end in contact,
  \<open>SetRandomJointAngles\<close> returns normally: the test \<open>i == max_attempts\<close> reads the outer
  \<open>i\<close>, which is still 0, so the \<open>throw\<close> is never reached. Here the generator has been
  advanced 1000 times and the contact count is 1.\<close>

theorem SetRandomJointAngles_exhausted:
  "SetRandomJointAngles colliding_engine 1000 spin_env
     = Inr (spin_env\<lparr>data := (data spin_env)\<lparr>ncon := 1\<rparr>, gen := 1000\<rparr>)"
  by (simp add: SetRandomJointAngles_def SetRandomJointAngles_loop_colliding spin_env_def)

subsection \<open>Construction\<close>

text \<open>Claim C7. Construction succeeds for the task names "spin", "turn_easy" and
  "turn_hard"; for every other task name it fails with the runtime error
  "Unknown task_name for dmc finger." (the configuration error of the specification).\<close>

theorem FingerEnv_ctor_task_name:
  "(task_name \<in> {''spin'', ''turn_easy'', ''turn_hard''} \<longrightarrow>
      (\<exists>s. FingerEnv_ctor task_name indeterminate base = Inr s)) \<and>
   (task_name \<notin> {''spin'', ''turn_easy'', ''turn_hard''} \<longrightarrow>
      FingerEnv_ctor task_name indeterminate base
        = Inl (runtime_error ''Unknown task_name for dmc finger.''))"
  by (simp add: FingerEnv_ctor_def Let_def)

theorem FingerEnv_ctor_task_name_witness:
  "''turn_hard'' \<in> {''spin'', ''turn_easy'', ''turn_hard''} \<and>
   (\<exists>s. FingerEnv_ctor ''turn_hard'' 0 spin_env = Inr s) \<and>
   ''walk'' \<notin> {''spin'', ''turn_easy'', ''turn_hard''} \<and>
   FingerEnv_ctor ''walk'' 0 spin_env = Inl (runtime_error ''Unknown task_name for dmc finger.'')"
  using FingerEnv_ctor_task_name [of "''turn_hard''" 0 spin_env]
    FingerEnv_ctor_task_name [of "''walk''" 0 spin_env]
  by simp

subsection \<open>Reward and observations\<close>

text \<open>Claim C4. For the Spin variant the reward is 1 exactly when the hinge angular
  velocity (sensor cell 4) is at most -15, the bound included, and 0 otherwise.\<close>

theorem TaskGetReward_spin:
  "is_spin s \<Longrightarrow>
     HingeVelocity s = sensordata (data s) ! 4 \<and>
     TaskGetReward s = (if HingeVelocity s \<le> - 15 then 1 else 0) \<and>
     (TaskGetReward s = 1 \<longleftrightarrow> HingeVelocity s \<le> - 15)"
  by (simp add: TaskGetReward_def float_of_bool_def kSpinVelocity_def HingeVelocity_def)

theorem TaskGetReward_spin_witness:
  "is_spin spin_env \<and> HingeVelocity spin_env = - 15 \<and> TaskGetReward spin_env = 1"
  using TaskGetReward_spin [of spin_env]
  by (simp add: spin_env_def finger_data_def)

text \<open>Claim C3. For the turn variants \<open>dist_to_target\<close> is the Euclidean norm of
  target position minus tip position, minus the radius of the target (cell 0 of the
  site sizes, where episode initialisation stores the target radius); it is the value
  written to the field "obs:dist_to_target"; and the reward is 1 exactly when it is at
  most 0, the bound included, and 0 otherwise.\<close>

theorem DistToTarget_turn:
  "\<not> is_spin s \<Longrightarrow>
     DistToTarget s = euclidean_norm (vec_sub (TargetPosition s) (TipPosition s))
                       - site_size (model s) ! 0 \<and>
     WriteState s allocated ''obs:dist_to_target'' = Some [DistToTarget s] \<and>
     TaskGetReward s = (if DistToTarget s \<le> 0 then 1 else 0) \<and>
     (TaskGetReward s = 1 \<longleftrightarrow> DistToTarget s \<le> 0)"
  by (simp add: TaskGetReward_def float_of_bool_def DistToTarget_def ToTarget_def
      TargetPosition_def TipPosition_def euclidean_norm_def vec_sub_def power2_eq_square
      WriteState_def)

theorem DistToTarget_turn_witness:
  "\<not> is_spin turn_env \<and> DistToTarget turn_env = 0 \<and> TaskGetReward turn_env = 1 \<and>
   WriteState turn_env Map.empty ''obs:dist_to_target'' = Some [0]"
proof -
  have "sqrt 25 = sqrt (5\<^sup>2)" by simp
  then have sq: "sqrt 25 = 5" by (simp only: real_sqrt_abs)
  have "DistToTarget turn_env = 0"
    by (simp add: DistToTarget_def ToTarget_def TargetPosition_def TipPosition_def
        turn_env_def finger_data_def finger_model_def sq)
  moreover have "\<not> is_spin turn_env" by (simp add: turn_env_def)
  ultimately show ?thesis using DistToTarget_turn [of turn_env Map.empty] by simp
qed

text \<open>Claim C8. The touch observation is \<open>log1p\<close> of the two raw touch readings (sensor
  cells 14 and 15), cell by cell. Hence it does not decrease when a raw reading grows
  (on the domain \<open>-1 < x\<close> of \<open>log1p\<close>, which holds every reading of a touch sensor), and
  it is at least 0 where the raw reading is.\<close>

theorem Touch_log1p:
  "Touch s = [log1p (sensordata (data s) ! 14), log1p (sensordata (data s) ! 15)] \<and>
   (- 1 < sensordata (data s) ! 14 \<and> sensordata (data s) ! 14 \<le> sensordata (data s') ! 14
      \<longrightarrow> Touch s ! 0 \<le> Touch s' ! 0) \<and>
   (- 1 < sensordata (data s) ! 15 \<and> sensordata (data s) ! 15 \<le> sensordata (data s') ! 15
      \<longrightarrow> Touch s ! 1 \<le> Touch s' ! 1) \<and>
   (0 \<le> sensordata (data s) ! 14 \<longrightarrow> 0 \<le> Touch s ! 0) \<and>
   (0 \<le> sensordata (data s) ! 15 \<longrightarrow> 0 \<le> Touch s ! 1)"
  by (simp add: Touch_def log1p_def)

theorem Touch_log1p_witness:
  "- 1 < sensordata (data spin_env) ! 14 \<and>
   sensordata (data spin_env) ! 14 \<le> sensordata (data pressed_env) ! 14 \<and>
   Touch spin_env ! 0 \<le> Touch pressed_env ! 0 \<and>
   - 1 < sensordata (data spin_env) ! 15 \<and>
   sensordata (data spin_env) ! 15 \<le> sensordata (data pressed_env) ! 15 \<and>
   Touch spin_env ! 1 \<le> Touch pressed_env ! 1 \<and>
   0 \<le> sensordata (data pressed_env) ! 14 \<and> 0 \<le> Touch pressed_env ! 0 \<and>
   0 \<le> sensordata (data pressed_env) ! 15 \<and> 0 \<le> Touch pressed_env ! 1"
proof -
  have h: "sensordata (data spin_env) ! 14 = 0" "sensordata (data spin_env) ! 15 = 0"
    "sensordata (data pressed_env) ! 14 = 1" "sensordata (data pressed_env) ! 15 = 2"
    by (simp_all add: spin_env_def pressed_env_def finger_data_def)
  show ?thesis
    using Touch_log1p [of spin_env pressed_env] Touch_log1p [of pressed_env pressed_env]
    by (simp add: h log1p_def)
qed

subsection \<open>Episode initialisation\<close>

lemma TaskInitializeEpisode_turn_unfold:
  assumes "\<not> is_spin s"
  shows "TaskInitializeEpisode E s =
    Inr (SetRandomJointAngles_loop E 1000 0
      (s\<lparr>gen := snd (dist_uniform E (gen s)),
          model := (model s)\<lparr>site_pos := (site_pos (model s))
              [0 := xanchor (data s) ! 6
                    + (geom_size (model s) ! 15 + geom_size (model s) ! 5
                       + geom_size (model s) ! 10) * sin (fst (dist_uniform E (gen s))),
               2 := xanchor (data s) ! 8
                    + (geom_size (model s) ! 15 + geom_size (model s) ! 5
                       + geom_size (model s) ! 10) * cos (fst (dist_uniform E (gen s)))],
            site_size := (site_size (model s))[0 := target_radius s]\<rparr>\<rparr>))"
  using assms
  by (simp add: TaskInitializeEpisode_def Let_def SetRandomJointAngles_1000)

lemma TaskInitializeEpisode_spin_unfold:
  assumes "is_spin s"
  shows "TaskInitializeEpisode E s =
    Inr (SetRandomJointAngles_loop E 1000 0
      (s\<lparr>model := (model s)\<lparr>site_rgba := (site_rgba (model s))[3 := 0, 12 := 0],
            dof_damping := (dof_damping (model s))[2 := 0.03]\<rparr>\<rparr>))"
  using assms
  by (simp add: TaskInitializeEpisode_def Let_def SetRandomJointAngles_1000)

lemma TaskInitializeEpisode_Inr:
  "\<exists>s'. TaskInitializeEpisode E s = Inr s' \<and> is_spin s' = is_spin s \<and>
     target_radius s' = target_radius s"
  by (cases "is_spin s")
     (simp_all add: TaskInitializeEpisode_spin_unfold TaskInitializeEpisode_turn_unfold)

text \<open>Claim C5 (the code departs from it). For a turn variant, episode initialisation
  places the target at the hinge anchor (cells 6 and 8 of \<open>xanchor\<close>) plus radius times
  (sin, cos) of the drawn angle and stores the target radius in cell 0 of the site
  sizes, but the radius is not the sum of the size cells of one geom: the source adds
  \<open>geom_size[5 * 3 + 0]\<close>, \<open>geom_size[5 * 1]\<close> and \<open>geom_size[5 * 2]\<close>, the cells 15, 5 and
  10, which belong to geoms 5, 1 and 3. On \<open>indexed_turn_env\<close>, with the angle 0 that
  \<open>free_engine\<close> draws, the target lies 30 = 15 + 5 + 10 above the hinge anchor, while
  the three size cells of geom 5 (15, 16, 17) sum to 48.\<close>

theorem TaskInitializeEpisode_turn_radius:
  "\<exists>s'. TaskInitializeEpisode free_engine indexed_turn_env = Inr s' \<and>
     fst (dist_uniform free_engine (gen indexed_turn_env)) = 0 \<and>
     site_pos (model s') ! 0 = xanchor (data indexed_turn_env) ! 6 + 30 * sin 0 \<and>
     site_pos (model s') ! 2 = xanchor (data indexed_turn_env) ! 8 + 30 * cos 0 \<and>
     site_pos (model s') ! 2 = 2 / 5 + 30 \<and>
     site_size (model s') ! 0 = 0.07 \<and>
     geom_cells (model indexed_turn_env) 5 = [15, 16, 17] \<and>
     sum_list (geom_cells (model indexed_turn_env) 5) = 48"
proof -
  have ns: "\<not> is_spin indexed_turn_env"
    by (simp add: indexed_turn_env_def turn_env_def)
  have du: "dist_uniform free_engine (gen indexed_turn_env) = (0, 1)"
    by (simp add: dist_uniform_def free_engine_def indexed_turn_env_def turn_env_def)
  have v: "xanchor (data indexed_turn_env) ! 6 = 1 / 5"
    "xanchor (data indexed_turn_env) ! 8 = 2 / 5"
    "geom_size (model indexed_turn_env) ! 15 = 15"
    "geom_size (model indexed_turn_env) ! 16 = 16"
    "geom_size (model indexed_turn_env) ! 17 = 17"
    "geom_size (model indexed_turn_env) ! 5 = 5"
    "geom_size (model indexed_turn_env) ! 10 = 10"
    "target_radius indexed_turn_env = 0.07"
    "site_pos (model indexed_turn_env) = replicate 12 0"
    "site_size (model indexed_turn_env) = 5 # replicate 11 (1 / 50)"
    by (simp_all add: indexed_turn_env_def turn_env_def finger_model_def finger_data_def
        kEasyTargetSize_def numeral_nat nth_Cons')
  show ?thesis
    unfolding TaskInitializeEpisode_turn_unfold [OF ns] du
    by (simp add: v geom_cells_def)
qed

text \<open>Claim C6 (the code departs from it). On a model with four sites, whose alpha
  values are the cells 3, 7, 11 and 15 of \<open>site_rgba\<close> (four cells per site), episode
  initialisation of the Spin variant zeroes cell \<open>3 * 0 + 3 = 3\<close> and cell
  \<open>3 * 3 + 3 = 12\<close>: the alpha of site 0 and the red component of site 3. One alpha
  value is 0 afterwards, not two; the hinge damping (cell 2) is 0.03.\<close>

theorem TaskInitializeEpisode_spin_rgba:
  "\<exists>s'. TaskInitializeEpisode free_engine spin_env = Inr s' \<and>
     site_rgba (model s') = [1, 1, 1, 0,  1, 1, 1, 1,  1, 1, 1, 1,  0, 1, 1, 1] \<and>
     map (\<lambda>i. site_rgba (model s') ! (4 * i + 3)) [0, 1, 2, 3] = [0, 1, 1, 1] \<and>
     dof_damping (model s') = [1 / 2, 1 / 2, 0.03]"
proof -
  have "is_spin spin_env" by (simp add: spin_env_def)
  then show ?thesis
    unfolding TaskInitializeEpisode_spin_unfold [OF \<open>is_spin spin_env\<close>]
    by (simp add: spin_env_def finger_model_def numeral_nat)
qed

subsection \<open>Reset, Step and the emitted record\<close>

text \<open>Claim C2 (the code departs from it). \<open>Reset\<close> against \<open>colliding_engine\<close> completes
  without an error after 1000 attempts and writes the first observation while the
  contact count is 1.\<close>

theorem Reset_in_contact:
  "\<exists>s'. Reset colliding_engine spin_env Map.empty = Inr (s', WriteState s' Map.empty) \<and>
     ncon (data s') = 1 \<and> gen s' = 1000"
proof -
  have sp: "is_spin (spin_env\<lparr>data := PhysicsReset colliding_engine (model spin_env) (data spin_env)\<rparr>)"
    by (simp add: spin_env_def)
  show ?thesis
    unfolding Reset_def ControlReset_def TaskInitializeEpisode_spin_unfold [OF sp]
    by (simp add: SetRandomJointAngles_loop_colliding spin_env_def)
qed

text \<open>
  The state specification is the same for every task name: the two target slots are
  part of the record of every variant.
\<close>

lemma StateSpec_target_slots:
  "StateSpec conf = StateSpec conf' \<and>
   ''obs:target_position'' \<in> fst ` set (StateSpec conf) \<and>
   ''obs:dist_to_target'' \<in> fst ` set (StateSpec conf)"
  by (simp add: StateSpec_def)

lemma WriteState_common:
  "WriteState s allocated ''reward'' = Some [reward s]"
  "WriteState s allocated ''discount'' = Some [discount s]"
  "WriteState s allocated ''obs:position'' = Some (BoundedPosition s)"
  "WriteState s allocated ''obs:velocity'' = Some (Velocity s)"
  "WriteState s allocated ''obs:touch'' = Some (Touch s)"
  by (simp_all add: WriteState_def Let_def)

lemma WriteState_target:
  "WriteState s allocated ''obs:target_position''
     = (if is_spin s then allocated ''obs:target_position'' else Some (TargetPosition s))"
  "WriteState s allocated ''obs:dist_to_target''
     = (if is_spin s then allocated ''obs:dist_to_target'' else Some [DistToTarget s])"
  by (simp_all add: WriteState_def Let_def)

lemma Step_emits:
  "Step E act s0 allocated = (s, state) \<Longrightarrow>
     state = WriteState s allocated \<and> is_spin s = is_spin s0"
  by (auto simp add: Step_def ControlStep_def Let_def)

lemma Reset_emits:
  "Reset E s0 allocated = Inr (s, state) \<Longrightarrow>
     state = WriteState s allocated \<and> is_spin s = is_spin s0"
  using TaskInitializeEpisode_Inr [of E "s0\<lparr>data := PhysicsReset E (model s0) (data s0)\<rparr>"]
  by (auto simp add: Reset_def ControlReset_def split: sum.splits)

lemma Reset_Inr: "\<exists>s. Reset E s0 allocated = Inr (s, WriteState s allocated)"
  using TaskInitializeEpisode_Inr [of E "s0\<lparr>data := PhysicsReset E (model s0) (data s0)\<rparr>"]
  by (auto simp add: Reset_def ControlReset_def)

text \<open>Claim C9. In the record emitted by \<open>Reset\<close> or by \<open>Step\<close>, position, velocity, touch,
  reward and discount are written for every variant; the target position and the
  distance to the target are written for the turn variants, and for the Spin variant
  their two slots are left as the record was allocated.\<close>

theorem emitted_state_fields:
  assumes "Reset E s0 allocated = Inr (s, state) \<or> Step E act s0 allocated = (s, state)"
  shows "state ''obs:position'' = Some (BoundedPosition s) \<and>
     state ''obs:velocity'' = Some (Velocity s) \<and>
     state ''obs:touch'' = Some (Touch s) \<and>
     state ''reward'' = Some [reward s] \<and>
     state ''discount'' = Some [discount s] \<and>
     (if is_spin s0
      then state ''obs:target_position'' = allocated ''obs:target_position'' \<and>
           state ''obs:dist_to_target'' = allocated ''obs:dist_to_target''
      else state ''obs:target_position'' = Some (TargetPosition s) \<and>
           state ''obs:dist_to_target'' = Some [DistToTarget s])"
proof -
  from assms have "state = WriteState s allocated \<and> is_spin s = is_spin s0"
    using Reset_emits Step_emits by blast
  then show ?thesis
    by (simp add: WriteState_common WriteState_target)
qed

theorem emitted_state_fields_witness:
  "(\<exists>s state. Reset free_engine spin_env stale_state = Inr (s, state) \<and>
      state ''obs:target_position'' = Some [9, 9] \<and>
      state ''obs:dist_to_target'' = Some [9]) \<and>
   (\<exists>s state. Step free_engine [0, 0] turn_env stale_state = (s, state) \<and>
      state ''obs:target_position'' = Some [3, 4] \<and>
      state ''obs:dist_to_target'' = Some [0] \<and>
      state ''reward'' = Some [1])"
proof
  obtain s where r: "Reset free_engine spin_env stale_state = Inr (s, WriteState s stale_state)"
    using Reset_Inr by blast
  show "\<exists>s state. Reset free_engine spin_env stale_state = Inr (s, state) \<and>
      state ''obs:target_position'' = Some [9, 9] \<and>
      state ''obs:dist_to_target'' = Some [9]"
    using emitted_state_fields [of free_engine spin_env stale_state s
        "WriteState s stale_state" "[]"] r
    by (simp add: spin_env_def stale_state_def)
next
  obtain s state where st: "Step free_engine [0, 0] turn_env stale_state = (s, state)"
    by (cases "Step free_engine [0, 0] turn_env stale_state")
  then have s: "s = ControlStep free_engine [0, 0] turn_env"
    by (simp add: Step_def Let_def)
  have "sqrt 25 = sqrt (5\<^sup>2)" by simp
  then have sq: "sqrt 25 = 5" by (simp only: real_sqrt_abs)
  have v: "TargetPosition s = [3, 4]" "DistToTarget s = 0" "reward s = 1"
    by (simp_all add: s ControlStep_def Let_def TargetPosition_def DistToTarget_def
        ToTarget_def TipPosition_def TaskGetReward_def float_of_bool_def
        turn_env_def free_engine_def finger_data_def finger_model_def sq)
  show "\<exists>s state. Step free_engine [0, 0] turn_env stale_state = (s, state) \<and>
      state ''obs:target_position'' = Some [3, 4] \<and>
      state ''obs:dist_to_target'' = Some [0] \<and>
      state ''reward'' = Some [1]"
    using emitted_state_fields [of free_engine turn_env stale_state s state "[0, 0]"] st v
    by (simp add: turn_env_def)
qed

subsection \<open>The target radius under Spin\<close>

lemma views_target_radius_update [simp]:
  "HingeVelocity (s\<lparr>target_radius := r\<rparr>) = HingeVelocity s"
  "BoundedPosition (s\<lparr>target_radius := r\<rparr>) = BoundedPosition s"
  "Velocity (s\<lparr>target_radius := r\<rparr>) = Velocity s"
  "Touch (s\<lparr>target_radius := r\<rparr>) = Touch s"
  by (simp_all add: HingeVelocity_def BoundedPosition_def TipPosition_def Velocity_def
      Touch_def)

lemma target_radius_update_commute:
  "(s\<lparr>target_radius := r\<rparr>)\<lparr>model := m\<rparr> = (s\<lparr>model := m\<rparr>)\<lparr>target_radius := r\<rparr>"
  "(s\<lparr>target_radius := r\<rparr>)\<lparr>data := d\<rparr> = (s\<lparr>data := d\<rparr>)\<lparr>target_radius := r\<rparr>"
  by (cases s, simp)+

lemma TaskGetReward_target_radius_update:
  "is_spin s \<Longrightarrow> TaskGetReward (s\<lparr>target_radius := r\<rparr>) = TaskGetReward s"
  by (simp add: TaskGetReward_def)

lemma WriteState_spin_target_radius:
  "is_spin s \<Longrightarrow> WriteState (s\<lparr>target_radius := r\<rparr>) allocated = WriteState s allocated"
  by (simp add: WriteState_def Let_def)

lemma TaskInitializeEpisode_spin_target_radius:
  assumes "is_spin s"
  shows "TaskInitializeEpisode E (s\<lparr>target_radius := r\<rparr>)
     = map_sum id (\<lambda>s'. s'\<lparr>target_radius := r\<rparr>) (TaskInitializeEpisode E s)"
proof -
  let ?m = "(model s)\<lparr>site_rgba := (site_rgba (model s))[3 := 0, 12 := 0],
            dof_damping := (dof_damping (model s))[2 := 0.03]\<rparr>"
  have sp: "is_spin (s\<lparr>target_radius := r\<rparr>)" using assms by simp
  have "TaskInitializeEpisode E (s\<lparr>target_radius := r\<rparr>)
      = Inr (SetRandomJointAngles_loop E 1000 0 ((s\<lparr>model := ?m\<rparr>)\<lparr>target_radius := r\<rparr>))"
    unfolding TaskInitializeEpisode_spin_unfold [OF sp] by (simp add: target_radius_update_commute)
  then show ?thesis
    unfolding TaskInitializeEpisode_spin_unfold [OF assms]
    by (simp add: SetRandomJointAngles_loop_target_radius_update)
qed

lemma Reset_spin_target_radius:
  assumes "is_spin s"
  shows "Reset E (s\<lparr>target_radius := r\<rparr>) allocated
     = map_sum id (\<lambda>(s', state). (s'\<lparr>target_radius := r\<rparr>, state)) (Reset E s allocated)"
proof -
  let ?s1 = "s\<lparr>data := PhysicsReset E (model s) (data s)\<rparr>"
  have sp: "is_spin ?s1" using assms by simp
  obtain s' where s': "TaskInitializeEpisode E ?s1 = Inr s'" "is_spin s' = is_spin ?s1"
    using TaskInitializeEpisode_Inr [of E ?s1] by blast
  have "ControlReset E (s\<lparr>target_radius := r\<rparr>) = Inr (s'\<lparr>target_radius := r\<rparr>)"
    using TaskInitializeEpisode_spin_target_radius [OF sp, of E r] s'(1)
    by (simp add: ControlReset_def target_radius_update_commute)
  moreover have "ControlReset E s = Inr s'"
    using s'(1) by (simp add: ControlReset_def)
  moreover have "is_spin s'" using s'(2) sp by simp
  ultimately show ?thesis
    by (simp add: Reset_def WriteState_spin_target_radius)
qed

lemma Step_spin_target_radius:
  assumes "is_spin s"
  shows "Step E act (s\<lparr>target_radius := r\<rparr>) allocated
     = (\<lambda>(s', state). (s'\<lparr>target_radius := r\<rparr>, state)) (Step E act s allocated)"
proof -
  let ?s1 = "s\<lparr>data := PhysicsStep E (model s) (data s) act\<rparr>"
  have sp: "is_spin ?s1" using assms by simp
  have "ControlStep E act (s\<lparr>target_radius := r\<rparr>)
      = (ControlStep E act s)\<lparr>target_radius := r\<rparr>"
    using TaskGetReward_target_radius_update [OF sp, of r]
    by (cases s) (simp add: ControlStep_def Let_def)
  moreover have "is_spin (ControlStep E act s)"
    using assms by (simp add: ControlStep_def Let_def)
  ultimately show ?thesis
    by (simp add: Step_def Let_def WriteState_spin_target_radius)
qed

text \<open>Claim C10. For the task name "spin" the constructor leaves \<open>target_radius_\<close> at the
  indeterminate value it had, and under Spin no operation reads it: with any other
  value \<open>r\<close> in that member, episode initialisation, the reward, the written record,
  \<open>Reset\<close> and \<open>Step\<close> give the same results and records, the member itself still
  holding \<open>r\<close>.\<close>

theorem spin_ignores_target_radius:
  "FingerEnv_ctor ''spin'' indeterminate base
     = Inr (base\<lparr>target_radius := indeterminate, is_spin := True\<rparr>) \<and>
   (is_spin s \<longrightarrow>
      TaskInitializeEpisode E (s\<lparr>target_radius := r\<rparr>)
        = map_sum id (\<lambda>s'. s'\<lparr>target_radius := r\<rparr>) (TaskInitializeEpisode E s) \<and>
      TaskGetReward (s\<lparr>target_radius := r\<rparr>) = TaskGetReward s \<and>
      WriteState (s\<lparr>target_radius := r\<rparr>) allocated = WriteState s allocated \<and>
      Reset E (s\<lparr>target_radius := r\<rparr>) allocated
        = map_sum id (\<lambda>(s', state). (s'\<lparr>target_radius := r\<rparr>, state)) (Reset E s allocated) \<and>
      Step E act (s\<lparr>target_radius := r\<rparr>) allocated
        = (\<lambda>(s', state). (s'\<lparr>target_radius := r\<rparr>, state)) (Step E act s allocated))"
  using TaskInitializeEpisode_spin_target_radius [of s E r]
    TaskGetReward_target_radius_update [of s r] WriteState_spin_target_radius [of s r allocated]
    Reset_spin_target_radius [of s E r allocated] Step_spin_target_radius [of s E act r allocated]
  by (simp add: FingerEnv_ctor_def Let_def)

theorem spin_ignores_target_radius_witness:
  "is_spin spin_env \<and>
   TaskGetReward (spin_env\<lparr>target_radius := 7\<rparr>) = TaskGetReward spin_env \<and>
   WriteState (spin_env\<lparr>target_radius := 7\<rparr>) stale_state = WriteState spin_env stale_state \<and>
   snd (Step free_engine [0, 0] (spin_env\<lparr>target_radius := 7\<rparr>) stale_state)
     = snd (Step free_engine [0, 0] spin_env stale_state) \<and>
   map_sum id snd (Reset free_engine (spin_env\<lparr>target_radius := 7\<rparr>) stale_state)
     = map_sum id snd (Reset free_engine spin_env stale_state)"
proof -
  have sp: "is_spin spin_env" by (simp add: spin_env_def)
  obtain s where r: "Reset free_engine spin_env stale_state = Inr (s, WriteState s stale_state)"
    using Reset_Inr by blast
  show ?thesis
    using spin_ignores_target_radius [of 0 spin_env spin_env free_engine 7 stale_state "[0, 0]"]
      sp r
    by (simp add: split_beta)
qed

end
